theory Spec2Isabelle
  imports Complex_Main
begin

section \<open>The service container of src/service-container.ts\<close>

text \<open>
  The supervisor is the class \<open>ServiceContainer\<close>. Its private fields become a record,
  every method and every callback it registers becomes a function from the state before
  to the state after, and everything it does to the outside world (writing to the logger,
  forking, killing or messaging the child, arming a timer, calling \<open>process.exit()\<close>) is
  appended to the field \<open>out\<close>, in the order of the calls.

  Numbers of JavaScript: the counters \<open>starts\<close> and \<open>attempts\<close> are natural numbers,
  the two limits are integers, and the clock (\<open>Date.now()\<close>, in milliseconds) is a real.
  The delay and its growth factor are doubles: they are kept as the reals they denote,
  and every product and sum that computes them is rounded by \<open>fl\<close> as IEEE 754 does.
\<close>

subsection \<open>Options and their defaults\<close>

record options =
  opt_file :: string
  opt_maxRetries :: "int option"
  opt_maxRestarts :: "int option"
  opt_restartDelay :: "real option"
  opt_restartDelayGrowth :: "real option"
  opt_abortOnError :: "bool option"
  opt_stopParentFirst :: "bool option"

text \<open>The \<open>??\<close> operator of the field initialisers.\<close>

definition nullish :: "'a option \<Rightarrow> 'a \<Rightarrow> 'a" where
  "nullish v d = (case v of None \<Rightarrow> d | Some x \<Rightarrow> x)"

text \<open>\<open>const MAX = 60\<close>, the length of the window in seconds.\<close>

definition MAX_seconds :: real where
  "MAX_seconds = 60"

subsection \<open>Double precision arithmetic\<close>

text \<open>
  A JavaScript number is an IEEE 754 double: 0, or \<open>m * 2 ^ q\<close> for integers \<open>m\<close> and \<open>q\<close>
  with \<open>\<bar>m\<bar> < 2 ^ 53\<close> and \<open>- 1074 \<le> q \<le> 971\<close>. The result of \<open>*\<close> and \<open>+\<close> is the exact
  result rounded to the nearest double, to the one with the even \<open>m\<close> at a tie: \<open>fl\<close>.
  \<open>bit_length n\<close> is the number of binary digits of \<open>n\<close>, \<open>ilog2 x\<close> the exponent \<open>e\<close> of a
  positive \<open>x\<close> (\<open>2 ^ e \<le> x < 2 ^ (e + 1)\<close>), and \<open>q\<close> the exponent of the last digit kept.
  A result of magnitude \<open>2 ^ 1024\<close> or more is \<open>Infinity\<close> in JavaScript; \<open>fl\<close> keeps
  rounding to 53 digits there, so that it is the arithmetic of the code below that bound
  only. The sign of a zero is not modelled.
\<close>

fun bit_length :: "nat \<Rightarrow> nat" where
  "bit_length n = (if n = 0 then 0 else Suc (bit_length (n div 2)))"

definition ilog2 :: "real \<Rightarrow> int" where
  "ilog2 x = (if 1 \<le> x then int (bit_length (nat \<lfloor>x\<rfloor>)) - 1
              else - int (bit_length (nat (\<lceil>1 / x\<rceil> - 1))))"

definition pow2 :: "int \<Rightarrow> real" where
  "pow2 q = (if 0 \<le> q then 2 ^ nat q else 1 / 2 ^ nat (- q))"

definition div_pow2 :: "real \<Rightarrow> int \<Rightarrow> real" where
  "div_pow2 x q = (if 0 \<le> q then x / 2 ^ nat q else x * 2 ^ nat (- q))"

definition round_half_even :: "real \<Rightarrow> int" where
  "round_half_even r =
     (let f = \<lfloor>r\<rfloor>
      in if r - of_int f < 1 / 2 then f
         else if 1 / 2 < r - of_int f then f + 1
         else if even f then f else f + 1)"

definition fl :: "real \<Rightarrow> real" where
  "fl x =
     (if x = 0 then 0
      else let q = max (ilog2 \<bar>x\<bar> - 52) (- 1074)
           in sgn x * (of_int (round_half_even (div_pow2 \<bar>x\<bar> q)) * pow2 q))"


subsection \<open>What the supervisor does to the outside world\<close>

datatype level = Info | Warn | Error

text \<open>
  The messages handed to the logger, one constructor for each template of the source:
  \<^item> \<open>Starting script\<close>: \<^verbatim>\<open>'Starting ' + this.script\<close>
  \<^item> \<open>ProcessKilled\<close>: \<^verbatim>\<open>"Process killed"\<close>
  \<^item> \<open>StoppedRunning script\<close>: \<^verbatim>\<open>this.script + ' stopped running.'\<close>
  \<^item> \<open>ExitedWithError script code\<close>: \<^verbatim>\<open>`${this.script} exited with error code ${code}`\<close>
  \<^item> \<open>TooManyRestartsWindow\<close>: \<^verbatim>\<open>'Too many restarts within the last ' + MAX + ' seconds. Please check the script.'\<close>
  \<^item> \<open>TooManyRestartsTotal script\<close>: \<^verbatim>\<open>`Too many restarts. ${this.script} will not be restarted because the maximum number of total restarts has been exceeded.`\<close>
  \<^item> \<open>RestartedAfter wait attempts\<close>: \<^verbatim>\<open>`Restarted ${this.wait} msecs after unexpected exit; attempts = ${this.attempts}`\<close>
  \<^item> \<open>AttemptedKillUnrecognized\<close>: \<^verbatim>\<open>'Attempted to kill an unrecognized process.'\<close>
  \<^item> \<open>ErrMessage m\<close>: the \<open>err.message\<close> of an uncaught exception or of a server error.
\<close>

datatype message =
    Starting string
  | ProcessKilled
  | StoppedRunning string
  | ExitedWithError string "int option"
  | TooManyRestartsWindow
  | TooManyRestartsTotal string
  | RestartedAfter real nat
  | AttemptedKillUnrecognized
  | ErrMessage string

text \<open>The truthiness of a message string: only the empty string is falsy.\<close>

fun msg_truthy :: "message \<Rightarrow> bool" where
  "msg_truthy (ErrMessage m) = (m \<noteq> [])"
| "msg_truthy _ = True"

text \<open>A child process handle, as \<open>fork\<close> returns it; \<open>pid\<close> is undefined when the spawn failed.\<close>

datatype child_process = ChildProcess (pid: "nat option")

datatype timer = RestartTimer | WindowTimer

datatype action =
    Log level message
  | Fork child_process
  | Send child_process string
  | Kill child_process
  | SetTimeout timer real
  | ProcessExit

subsection \<open>The state\<close>

text \<open>
  The fields down to \<open>forcekill\<close> are those of the class. The others describe the
  process around it: \<open>exited\<close> holds once \<open>process.exit()\<close> was called, \<open>timers\<close> are the
  armed timers with the time each is due, \<open>live\<close> are the pids of the children that were
  forked and have not exited, \<open>forks\<close> counts the forks (the next child gets the pid
  \<open>forks + 1\<close>), and \<open>out\<close> is what was done to the outside world so far.
\<close>

record container =
  child :: "child_process option"
  starts :: nat
  maxRestarts :: int
  maxRetries :: int
  abortOnError :: bool
  stopParentFirst :: bool
  script :: string
  wait :: real
  grow :: real
  attempts :: nat
  startTime :: real
  forcekill :: bool
  exited :: bool
  timers :: "(timer \<times> real) list"
  live :: "nat list"
  forks :: nat
  out :: "action list"

text \<open>
  The field initialisers of the class (lines 39 to 56). The path of the script is taken
  as it is given (\<open>main\<close> passes a resolved path).
\<close>

definition new_container :: "options \<Rightarrow> container" where
  "new_container opts =
     \<lparr> child = None,
       starts = 0,
       maxRestarts = nullish (opt_maxRestarts opts) 5,
       maxRetries = nullish (opt_maxRetries opts) (- 1),
       abortOnError = nullish (opt_abortOnError opts) False,
       stopParentFirst = nullish (opt_stopParentFirst opts) False,
       script = opt_file opts,
       wait = fl (nullish (opt_restartDelay opts) 1 * 1000),
       grow = fl (nullish (opt_restartDelayGrowth opts) (1 / 4) + 1),
       attempts = 0,
       startTime = 0,
       forcekill = False,
       exited = False,
       timers = [],
       live = [],
       forks = 0,
       out = [] \<rparr>"

definition emit :: "action \<Rightarrow> container \<Rightarrow> container" where
  "emit a s = s\<lparr>out := out s @ [a]\<rparr>"

text \<open>
  \<open>setTimeout(callback, delay)\<close> at the time \<open>now\<close>: the action records the delay that is
  passed, and the timer is entered as due when that delay is over.
\<close>

definition set_timeout :: "timer \<Rightarrow> real \<Rightarrow> real \<Rightarrow> container \<Rightarrow> container" where
  "set_timeout k now delay s = emit (SetTimeout k delay) (s\<lparr>timers := timers s @ [(k, now + delay)]\<rparr>)"

text \<open>\<open>fork(this.script, ...)\<close>: a new child, alive, with a pid not used before.\<close>

definition fork :: "container \<Rightarrow> container" where
  "fork s =
     (let c = ChildProcess (Some (Suc (forks s)))
      in emit (Fork c) (s\<lparr>child := Some c, live := live s @ [Suc (forks s)], forks := Suc (forks s)\<rparr>))"

subsection \<open>The methods\<close>

text \<open>\<open>killkid\<close> (lines 167 to 178).\<close>

definition killkid :: "container \<Rightarrow> container" where
  "killkid s =
     (let s1 = s\<lparr>forcekill := True\<rparr>
      in case child s1 of
           Some c \<Rightarrow> if stopParentFirst s1 then emit (Send c ''shutdown'') s1 else emit (Kill c) s1
         | None \<Rightarrow> emit (Log Warn AttemptedKillUnrecognized) s1)"

text \<open>
  \<open>process.exit()\<close>: the listener that \<open>start\<close> registered for the \<open>exit\<close> event of the
  process runs \<open>killkid\<close>, and the process ends; nothing after the call is executed.
\<close>

definition process_exit :: "container \<Rightarrow> container" where
  "process_exit s = (killkid (emit ProcessExit s))\<lparr>exited := True\<rparr>"

text \<open>\<open>launch\<close> (lines 120 to 146), up to the registration of the exit listener.\<close>

definition launch :: "real \<Rightarrow> level \<Rightarrow> message \<Rightarrow> container \<Rightarrow> container" where
  "launch now logLevel msg s =
     (if forcekill s then emit (Log Info ProcessKilled) s
      else
        let s1 = (if msg_truthy msg then emit (Log logLevel msg) s else s);
            s2 = (if startTime s1 = 0
                  then set_timeout WindowTimer now (MAX_seconds * 1000 + 1) (s1\<lparr>startTime := now\<rparr>)
                  else s1);
            s3 = s2\<lparr>starts := starts s2 + 1\<rparr>
        in fork s3)"

text \<open>The callback of the timer armed in \<open>launch\<close> (lines 134 to 137).\<close>

definition window_timer :: "container \<Rightarrow> container" where
  "window_timer s = s\<lparr>startTime := 0, starts := 0\<rparr>"

text \<open>The callback of the timer armed in \<open>monitor\<close> (lines 97 to 106).\<close>

definition restart_timer :: "real \<Rightarrow> container \<Rightarrow> container" where
  "restart_timer now s =
     (let s1 = s\<lparr>wait := fl (wait s * grow s)\<rparr>;
          s2 = s1\<lparr>attempts := attempts s1 + 1\<rparr>
      in if int (attempts s2) > maxRetries s2 \<and> maxRetries s2 \<ge> 0
         then process_exit (emit (Log Error (TooManyRestartsTotal (script s2))) s2)
         else launch now Warn (RestartedAfter (wait s2) (attempts s2)) s2)"

text \<open>\<open>!this.child || !this.child.pid\<close>: no handle, or a handle whose pid is undefined or 0.\<close>

definition no_child_pid :: "container \<Rightarrow> bool" where
  "no_child_pid s =
     (case child s of
        None \<Rightarrow> True
      | Some c \<Rightarrow> (case pid c of None \<Rightarrow> True | Some p \<Rightarrow> p = 0))"

text \<open>\<open>monitor\<close> (lines 86 to 112).\<close>

definition monitor :: "real \<Rightarrow> container \<Rightarrow> container" where
  "monitor now s =
     (if no_child_pid s then
        (if int (starts s) \<ge> maxRestarts s \<and> now - MAX_seconds * 1000 \<le> startTime s
         then process_exit (emit (Log Error TooManyRestartsWindow) s)
         else set_timeout RestartTimer now (wait s) s)
      else s\<lparr>attempts := 0, wait := fl (wait s * 1000)\<rparr>)"

text \<open>
  The listener of the child's \<open>exit\<close> event (lines 149 to 164); \<open>code\<close> is \<open>None\<close> for
  the \<open>null\<close> of a child ended by a signal.
\<close>

definition child_exit :: "real \<Rightarrow> int option \<Rightarrow> container \<Rightarrow> container" where
  "child_exit now code s =
     (let s1 = emit (Log Warn (StoppedRunning (script s))) s
      in if code \<noteq> Some 0 \<and> abortOnError s1
         then process_exit (emit (Log Error (ExitedWithError (script s1) code)) s1)
         else if forcekill s1 then process_exit s1
         else monitor now (s1\<lparr>child := None\<rparr>))"

text \<open>\<open>start\<close> (lines 58 to 69): the listeners are registered (see \<open>dispatch\<close>), then the first launch.\<close>

definition start :: "real \<Rightarrow> container \<Rightarrow> container" where
  "start now s = launch now Info (Starting (script s)) s"

subsection \<open>Events\<close>

text \<open>
  What the event loop delivers after \<open>start\<close>, each with the time of its delivery:
  a termination request (\<open>SIGINT\<close> or \<open>SIGTERM\<close>), an uncaught exception, an error of the
  keep-alive server, the exit of the child with the given pid, and the firing of a timer
  (named by its kind and the time it was due).
\<close>

datatype event =
    Signal
  | UncaughtException string
  | ServerError string
  | ChildExit nat "int option"
  | TimerFires timer real

fun dispatch :: "real \<Rightarrow> event \<Rightarrow> container \<Rightarrow> container" where
  "dispatch now Signal s = killkid s"
| "dispatch now (UncaughtException m) s = launch now Warn (ErrMessage m) s"
| "dispatch now (ServerError m) s = launch now Warn (ErrMessage m) s"
| "dispatch now (ChildExit p code) s = child_exit now code (s\<lparr>live := removeAll p (live s)\<rparr>)"
| "dispatch now (TimerFires RestartTimer due) s =
     restart_timer now (s\<lparr>timers := remove1 (RestartTimer, due) (timers s)\<rparr>)"
| "dispatch now (TimerFires WindowTimer due) s =
     window_timer (s\<lparr>timers := remove1 (WindowTimer, due) (timers s)\<rparr>)"

text \<open>A process that has exited handles nothing any more.\<close>

definition step :: "container \<Rightarrow> real \<times> event \<Rightarrow> container" where
  "step s e = (if exited s then s else dispatch (fst e) (snd e) s)"

definition run :: "container \<Rightarrow> (real \<times> event) list \<Rightarrow> container" where
  "run s es = foldl step s es"

text \<open>The supervisor, constructed from \<open>opts\<close> and started at \<open>t0\<close>, after the events \<open>es\<close>.\<close>

definition supervise :: "options \<Rightarrow> real \<Rightarrow> (real \<times> event) list \<Rightarrow> container" where
  "supervise opts t0 es = run (start t0 (new_container opts)) es"

text \<open>
  What the environment can deliver: only a live child exits, and only an armed timer
  fires, not before it is due. Time does not go back.
\<close>

fun enabled :: "container \<Rightarrow> real \<times> event \<Rightarrow> bool" where
  "enabled s (t, ChildExit p code) = (p \<in> set (live s))"
| "enabled s (t, TimerFires k due) = ((k, due) \<in> set (timers s) \<and> due \<le> t)"
| "enabled s (t, _) = True"

fun feasible :: "real \<Rightarrow> container \<Rightarrow> (real \<times> event) list \<Rightarrow> bool" where
  "feasible t s [] = True"
| "feasible t s (e # es) = (t \<le> fst e \<and> enabled s e \<and> feasible (fst e) (step s e) es)"

text \<open>
  The same with nothing assumed about the clock: only a live child exits, and only an
  armed timer fires, at whatever time. (Node truncates the delay it is passed to whole
  milliseconds and replaces a delay above 2147483647 or below 1 by 1, so that a timer can
  fire before the delay passed to \<open>setTimeout\<close> is over.)
\<close>

fun armed :: "container \<Rightarrow> real \<times> event \<Rightarrow> bool" where
  "armed s (t, ChildExit p code) = (p \<in> set (live s))"
| "armed s (t, TimerFires k due) = ((k, due) \<in> set (timers s))"
| "armed s (t, _) = True"

fun deliverable :: "container \<Rightarrow> (real \<times> event) list \<Rightarrow> bool" where
  "deliverable s [] = True"
| "deliverable s (e # es) = (armed s e \<and> deliverable (step s e) es)"

definition default_options :: "string \<Rightarrow> options" where
  "default_options f =
     \<lparr> opt_file = f, opt_maxRetries = None, opt_maxRestarts = None, opt_restartDelay = None,
       opt_restartDelayGrowth = None, opt_abortOnError = None, opt_stopParentFirst = None \<rparr>"

subsection \<open>Observations on a run\<close>

text \<open>What a handler added to \<open>out\<close>: the actions of \<open>s'\<close> that \<open>s\<close> did not have yet.\<close>

definition new_actions :: "container \<Rightarrow> container \<Rightarrow> action list" where
  "new_actions s s' = drop (length (out s)) (out s')"

fun is_fork :: "action \<Rightarrow> bool" where
  "is_fork (Fork c) = True"
| "is_fork _ = False"



fun is_exception :: "event \<Rightarrow> bool" where
  "is_exception (UncaughtException m) = True"
| "is_exception (ServerError m) = True"
| "is_exception _ = False"

definition no_exceptions :: "(real \<times> event) list \<Rightarrow> bool" where
  "no_exceptions es = list_all (\<lambda>e. \<not> is_exception (snd e)) es"

fun is_restart :: "timer \<times> real \<Rightarrow> bool" where
  "is_restart (RestartTimer, due) = True"
| "is_restart (WindowTimer, due) = False"


text \<open>The times at which the events of a run forked a child, in order.\<close>

fun launch_times :: "container \<Rightarrow> (real \<times> event) list \<Rightarrow> real list" where
  "launch_times s [] = []"
| "launch_times s (e # es) =
     replicate (forks (step s e) - forks s) (fst e) @ launch_times (step s e) es"

text \<open>
  The handle and the children agree: an exited supervisor leaves no child behind; with
  no handle no child is alive and at most one restart is pending; with a handle exactly
  the child it names is alive and no restart is pending.
\<close>

definition one_child :: "container \<Rightarrow> bool" where
  "one_child s =
     (if exited s then live s = []
      else case child s of
             None \<Rightarrow> live s = [] \<and> length (filter is_restart (timers s)) \<le> 1
           | Some c \<Rightarrow> live s = (case pid c of None \<Rightarrow> [] | Some p \<Rightarrow> [p]) \<and> pid c \<noteq> None
                 \<and> filter is_restart (timers s) = [])"




section \<open>Killing a process by pid (src/cmd.ts)\<close>

text \<open>
  A JavaScript number: a finite value, \<open>NaN\<close> or an infinity. \<open>!pid\<close> holds of \<open>0\<close> and
  of \<open>NaN\<close>; \<open>isNaN(pid)\<close> holds of \<open>NaN\<close>; \<open>typeof\<close> of a boolean is the string
  \<open>boolean\<close>; a string is truthy unless it is empty.
\<close>

datatype js_number = Num real | NaN | PosInfinity | NegInfinity

definition not_js :: "js_number \<Rightarrow> bool" where
  "not_js n = (n = Num 0 \<or> n = NaN)"

definition isNaN :: "js_number \<Rightarrow> bool" where
  "isNaN n = (n = NaN)"

definition typeof_boolean :: "bool \<Rightarrow> string" where
  "typeof_boolean b = ''boolean''"

definition truthy_string :: "string \<Rightarrow> bool" where
  "truthy_string str = (str \<noteq> [])"

datatype js_error = JsError string

text \<open>The command \<^verbatim>\<open>`taskkill /PID ${pid}${force ? ' /f' : ''}`\<close> handed to \<open>exec\<close>.\<close>

datatype command = Taskkill js_number bool

text \<open>\<open>taskKill\<close> (lines 23 to 33 of cmd.ts); \<open>Inl\<close> is the error thrown.\<close>

definition taskKill :: "js_number \<Rightarrow> bool \<Rightarrow> js_error + command" where
  "taskKill p force =
     (if not_js p then Inl (JsError ''PID is required for the kill operation.'')
      else if truthy_string (typeof_boolean (isNaN p)) then Inl (JsError ''PID must be a number.'')
      else Inr (Taskkill p force))"

section \<open>Concrete configurations and runs\<close>

text \<open>The defaults with \<open>stopParentFirst\<close> set.\<close>

definition stop_first_options :: "string \<Rightarrow> options" where
  "stop_first_options f = (default_options f)\<lparr>opt_stopParentFirst := Some True\<rparr>"

text \<open>Scenario A: two retries, five restarts per window, a delay of one second that does not grow.\<close>

definition scenario_A_options :: options where
  "scenario_A_options =
     \<lparr> opt_file = ''svc.js'', opt_maxRetries = Some 2, opt_maxRestarts = Some 5,
       opt_restartDelay = Some 1, opt_restartDelayGrowth = Some 0, opt_abortOnError = None,
       opt_stopParentFirst = None \<rparr>"

text \<open>
  Scenario A, started at 100000: each child exits with code 1 after 100 ms, and each
  restart timer fires when it is due.
\<close>

definition scenario_A_events :: "(real \<times> event) list" where
  "scenario_A_events =
     [(100100, ChildExit 1 (Some 1)), (101100, TimerFires RestartTimer 101100),
      (101200, ChildExit 2 (Some 1)), (102200, TimerFires RestartTimer 102200),
      (102300, ChildExit 3 (Some 1)), (103300, TimerFires RestartTimer 103300)]"


text \<open>
  A run of the defaults, started at 100000: the first child exits after 70 seconds, the
  second is forked at 171000 and is still alive when the window timer armed by its
  launch fires at 231001.
\<close>

definition stable_run :: "(real \<times> event) list" where
  "stable_run =
     [(160001, TimerFires WindowTimer 160001), (170000, ChildExit 1 (Some 1)),
      (171000, TimerFires RestartTimer 171000), (231001, TimerFires WindowTimer 231001)]"




text \<open>
  A run started at 100000: an uncaught exception at 100500, the exit of the second child
  with code 0 at 100600, and a termination request at 100700.
\<close>

definition orphan_run :: "(real \<times> event) list" where
  "orphan_run =
     [(100500, UncaughtException ''boom''), (100600, ChildExit 2 (Some 0)), (100700, Signal)]"

section \<open>Basic facts\<close>

lemmas container_defs =
  killkid_def process_exit_def launch_def window_timer_def restart_timer_def no_child_pid_def
  monitor_def child_exit_def start_def emit_def set_timeout_def fork_def

declare bit_length.simps [simp del]

lemma bit_length_numeral [simp]:
  "bit_length 0 = 0"
  "bit_length (Suc 0) = Suc 0"
  "bit_length (numeral k) = Suc (bit_length (numeral k div 2))"
  by (simp_all add: bit_length.simps[of 0] bit_length.simps[of "Suc 0"]
      bit_length.simps[of "numeral k"])

lemmas fl_defs = fl_def ilog2_def round_half_even_def pow2_def div_pow2_def

lemmas eval_defs =
  supervise_def step_def new_container_def default_options_def nullish_def MAX_seconds_def
  container_defs Let_def new_actions_def fl_defs

lemma run_Nil [simp]: "run s [] = s"
  by (simp add: run_def)

lemma run_Cons [simp]: "run s (e # es) = run (step s e) es"
  by (simp add: run_def)

lemma run_snoc [simp]: "run s (es @ [e]) = step (run s es) e"
  by (simp add: run_def)

lemma step_exited [simp]: "exited s \<Longrightarrow> step s e = s"
  by (simp add: step_def)

lemma run_exited [simp]: "exited s \<Longrightarrow> run s es = s"
  by (induction es) simp_all

lemma enabled_armed: "enabled s e \<Longrightarrow> armed s e"
proof -
  obtain t ev where e: "e = (t, ev)" by (cases e)
  assume "enabled s e"
  then show ?thesis unfolding e by (cases ev) simp_all
qed

lemma feasible_deliverable: "feasible T s es \<Longrightarrow> deliverable s es"
  by (induction es arbitrary: T s) (auto simp: enabled_armed)

subsection \<open>Once a kill was requested\<close>

lemma step_forcekill:
  assumes "forcekill s"
  shows "forcekill (step s e) \<and> filter is_fork (out (step s e)) = filter is_fork (out s)
         \<and> forks (step s e) = forks s"
proof (cases "exited s")
  case True
  then show ?thesis using assms by simp
next
  case False
  obtain t ev where e: "e = (t, ev)" by (cases e)
  show ?thesis
  proof (cases ev)
    case (TimerFires k due)
    then show ?thesis using assms False e
      by (cases k) (auto simp: step_def container_defs Let_def split: option.splits)
  qed (use assms False e in \<open>auto simp: step_def container_defs Let_def split: option.splits\<close>)
qed

lemma run_forcekill:
  "forcekill s \<Longrightarrow>
     forcekill (run s es) \<and> filter is_fork (out (run s es)) = filter is_fork (out s)
       \<and> forks (run s es) = forks s"
proof (induction es arbitrary: s)
  case Nil
  then show ?case by simp
next
  case (Cons e es)
  from step_forcekill[OF Cons.prems, of e] have fk: "forcekill (step s e)"
    and eq: "filter is_fork (out (step s e)) = filter is_fork (out s)"
    and fo: "forks (step s e) = forks s" by simp_all
  from Cons.IH[OF fk] eq fo show ?case by simp
qed

subsection \<open>The delay and the attempts\<close>






subsection \<open>One child at a time, without exceptions\<close>

lemma filter_remove1_restart:
  "(k, due) \<in> set ts \<Longrightarrow> length (filter is_restart ts) \<le> 1 \<Longrightarrow> k = RestartTimer \<Longrightarrow>
     filter is_restart (remove1 (k, due) ts) = []"
proof (induction ts)
  case Nil
  then show ?case by simp
next
  case (Cons a ts)
  obtain k' d' where a: "a = (k', d')" by (cases a)
  show ?case
  proof (cases "a = (k, due)")
    case True
    with Cons.prems show ?thesis by (simp add: a)
  next
    case False
    with Cons.prems Cons.IH show ?thesis
      by (cases k') (auto simp: a filter_empty_conv split: if_splits)
  qed
qed

lemma filter_remove1_window:
  "filter is_restart (remove1 (WindowTimer, due) ts) = filter is_restart ts"
  by (induction ts) auto

lemma step_one_child:
  assumes "one_child s" "armed s (t, ev)" "\<not> is_exception ev"
  shows "one_child (step s (t, ev))"
proof (cases "exited s")
  case True
  then show ?thesis using assms by simp
next
  case False
  show ?thesis
  proof (cases ev)
    case Signal
    then show ?thesis using assms False
      by (auto simp: one_child_def step_def container_defs Let_def split: option.splits)
  next
    case (ChildExit p code)
    then show ?thesis using assms False
      by (auto simp: one_child_def step_def container_defs Let_def split: option.splits if_splits)
  next
    case (TimerFires k due)
    show ?thesis
    proof (cases k)
      case RestartTimer
      with TimerFires assms False have mem: "(RestartTimer, due) \<in> set (timers s)" by simp
      have nr: "child s = None \<and> live s = [] \<and> length (filter is_restart (timers s)) \<le> 1"
      proof (cases "child s")
        case None
        then show ?thesis using assms(1) False by (simp add: one_child_def)
      next
        case (Some c)
        with assms(1) False have "filter is_restart (timers s) = []" by (simp add: one_child_def)
        moreover from mem have "(RestartTimer, due) \<in> set (filter is_restart (timers s))" by simp
        ultimately show ?thesis by simp
      qed
      have rm: "filter is_restart (remove1 (RestartTimer, due) (timers s)) = []"
        using filter_remove1_restart[OF mem] nr by simp
      show ?thesis using TimerFires RestartTimer False nr rm
        by (auto simp: one_child_def step_def container_defs Let_def split: option.splits)
    next
      case WindowTimer
      then show ?thesis using TimerFires assms False
        by (auto simp: one_child_def step_def container_defs Let_def filter_remove1_window
            split: option.splits)
    qed
  qed (use assms in auto)
qed

lemma run_one_child_deliverable:
  "one_child s \<Longrightarrow> deliverable s es \<Longrightarrow> no_exceptions es \<Longrightarrow> one_child (run s es)"
proof (induction es arbitrary: s)
  case Nil
  then show ?case by simp
next
  case (Cons e es)
  obtain t ev where e: "e = (t, ev)" by (cases e)
  from Cons.prems e have en: "armed s (t, ev)" and fe: "deliverable (step s (t, ev)) es"
    and nx: "\<not> is_exception ev" and nxs: "no_exceptions es"
    by (simp_all add: no_exceptions_def)
  have oc: "one_child (step s (t, ev))" by (rule step_one_child[OF Cons.prems(1) en nx])
  from Cons.IH[OF oc fe nxs] show ?case by (simp add: e)
qed

lemma run_one_child:
  "one_child s \<Longrightarrow> feasible T s es \<Longrightarrow> no_exceptions es \<Longrightarrow> one_child (run s es)"
  by (rule run_one_child_deliverable[OF _ feasible_deliverable])

lemma start_one_child: "one_child (start t0 (new_container opts))"
  by (simp add: one_child_def container_defs new_container_def Let_def)

lemma feasible_take: "feasible T s es \<Longrightarrow> feasible T s (take n es)"
proof (induction es arbitrary: T s n)
  case Nil
  then show ?case by simp
next
  case (Cons e es)
  then show ?case by (cases n) simp_all
qed

lemma no_exceptions_take: "no_exceptions es \<Longrightarrow> no_exceptions (take n es)"
  by (auto simp: no_exceptions_def list_all_iff dest: in_set_takeD)

subsection \<open>The counter of the window\<close>





subsection \<open>An exit that schedules a restart\<close>



text \<open>
  On a run without uncaught exceptions and server errors, at every point at most one
  child is alive, and the handle names it.
\<close>

lemma one_live_child_without_exceptions:
  assumes fe: "feasible t0 (start t0 (new_container opts)) es" and nx: "no_exceptions es"
  shows "length (live (supervise opts t0 (take n es))) \<le> 1
    \<and> one_child (supervise opts t0 (take n es))"
proof -
  have oc: "one_child (supervise opts t0 (take n es))"
    unfolding supervise_def
    by (rule run_one_child[OF start_one_child feasible_take[OF fe] no_exceptions_take[OF nx]])
  then have "length (live (supervise opts t0 (take n es))) \<le> 1"
    by (auto simp: one_child_def split: if_splits option.splits)
  with oc show ?thesis by simp
qed

subsection \<open>Exits, firings and pending restarts\<close>




section \<open>The claims\<close>

subsection \<open>C1: exits after a kill was requested\<close>

text \<open>
  C1, as the code has it. When the exit listener runs with \<open>forcekill\<close> set, the supervisor
  exits whatever the exit code and \<open>abortOnError\<close> are: it logs that the script stopped
  running, logs the error code as well when the code is not 0 and \<open>abortOnError\<close> is set,
  and calls \<open>process.exit()\<close> (whose exit listener runs \<open>killkid\<close> once more, the last
  action). It forks no child, arms no timer, and does not log "Process killed": that
  message is written by \<open>launch\<close>, which with \<open>forcekill\<close> set does nothing else. Once
  \<open>forcekill\<close> is set it stays set, and no later event of any kind forks a child.
\<close>

theorem forcekill_exit_terminates:
  assumes fk: "forcekill s"
  shows "exited (child_exit now code s)
   \<and> butlast (new_actions s (child_exit now code s)) =
       Log Warn (StoppedRunning (script s)) #
       (if code \<noteq> Some 0 \<and> abortOnError s then [Log Error (ExitedWithError (script s) code)] else [])
       @ [ProcessExit]
   \<and> Log lv ProcessKilled \<notin> set (new_actions s (child_exit now code s))
   \<and> filter is_fork (new_actions s (child_exit now code s)) = []
   \<and> timers (child_exit now code s) = timers s
   \<and> launch now lv msg s = emit (Log Info ProcessKilled) s
   \<and> forcekill (run s es)
   \<and> filter is_fork (out (run s es)) = filter is_fork (out s)
   \<and> forks (run s es) = forks s"
proof -
  have a: "exited (child_exit now code s)"
    using fk by (simp add: container_defs Let_def split: option.splits)
  have b: "butlast (new_actions s (child_exit now code s)) =
       Log Warn (StoppedRunning (script s)) #
       (if code \<noteq> Some 0 \<and> abortOnError s then [Log Error (ExitedWithError (script s) code)] else [])
       @ [ProcessExit]"
    using fk by (simp add: new_actions_def container_defs Let_def split: option.splits)
  have c: "Log lv ProcessKilled \<notin> set (new_actions s (child_exit now code s))"
    using fk by (simp add: new_actions_def container_defs Let_def split: option.splits)
  have d: "filter is_fork (new_actions s (child_exit now code s)) = []"
    using fk by (simp add: new_actions_def container_defs Let_def split: option.splits)
  have e: "timers (child_exit now code s) = timers s"
    using fk by (simp add: container_defs Let_def split: option.splits)
  have f: "launch now lv msg s = emit (Log Info ProcessKilled) s"
    using fk by (simp add: launch_def)
  from run_forcekill[OF fk, of es] have g: "forcekill (run s es)"
    and h: "filter is_fork (out (run s es)) = filter is_fork (out s)"
    and i: "forks (run s es) = forks s" by simp_all
  from a b c d e f g h i show ?thesis by blast
qed

text \<open>
  The theorem at the defaults: a signal arrives while the first child runs; the exit of
  the child then ends the supervisor, and an uncaught exception instead forks nothing.
\<close>

theorem forcekill_exit_terminates_witness:
  "forcekill (supervise (default_options ''svc.js'') 100000 [(100500, Signal)])
   \<and> exited (child_exit 100600 None (supervise (default_options ''svc.js'') 100000 [(100500, Signal)]))
   \<and> forks (run (supervise (default_options ''svc.js'') 100000 [(100500, Signal)])
        [(100600, UncaughtException ''boom'')]) = 1"
proof -
  have fk: "forcekill (supervise (default_options ''svc.js'') 100000 [(100500, Signal)])"
    by (simp add: eval_defs)
  show ?thesis
    using fk forcekill_exit_terminates [OF fk, of 100600 None Info "ErrMessage ''boom''"
        "[(100600, UncaughtException ''boom'')]"]
    by (simp add: eval_defs)
qed

text \<open>
  C1 as stated asks for the log entry "Process killed" at such an exit. At the
  defaults, a signal at 100500 and the exit of the child at 100600: the supervisor exits,
  and nothing it wrote is that entry.
\<close>

theorem process_killed_counterexample:
  "forcekill (supervise (default_options ''svc.js'') 100000 [(100500, Signal)])
   \<and> \<not> exited (supervise (default_options ''svc.js'') 100000 [(100500, Signal)])
   \<and> out (supervise (default_options ''svc.js'') 100000 [(100500, Signal), (100600, ChildExit 1 None)]) =
       [Log Info (Starting ''svc.js''), SetTimeout WindowTimer 60001, Fork (ChildProcess (Some 1)),
        Kill (ChildProcess (Some 1)), Log Warn (StoppedRunning ''svc.js''), ProcessExit,
        Kill (ChildProcess (Some 1))]
   \<and> Log Info ProcessKilled \<notin> set (out (supervise (default_options ''svc.js'') 100000
        [(100500, Signal), (100600, ChildExit 1 None)]))"
  by (simp add: eval_defs)

subsection \<open>C2: the limit on restarts per window\<close>




subsection \<open>C3: a stable run does not reset the backoff\<close>

text \<open>
  C3 asks that \<open>attempts\<close> and \<open>starts\<close> be 0 and the delay be the base delay again once
  the child has been alive for the whole window of 60 seconds. The code at the run
  \<open>stable_run\<close> of the defaults: the second child is forked at 171000 by the first
  restart, and is alive when the window timer of that launch fires at 231001. That timer
  has cleared \<open>starts\<close>, but \<open>attempts\<close> is still 1 and the delay still 1250, so that the
  exit of the child at 240000 arms the restart timer with 1250 and not with 1000. The
  branch of \<open>monitor\<close> that is commented as resetting them is not reached from the exit
  listener (which clears the handle first), and entered on this state it would set the delay
  to 1250000.
\<close>

theorem stable_window_keeps_backoff:
  "feasible 100000 (start 100000 (new_container (default_options ''svc.js'')))
     (stable_run @ [(240000, ChildExit 2 (Some 1))])
   \<and> launch_times (start 100000 (new_container (default_options ''svc.js''))) stable_run = [171000]
   \<and> live (supervise (default_options ''svc.js'') 100000 stable_run) = [2]
   \<and> starts (supervise (default_options ''svc.js'') 100000 stable_run) = 0
   \<and> attempts (supervise (default_options ''svc.js'') 100000 stable_run) = 1
   \<and> wait (supervise (default_options ''svc.js'') 100000 stable_run) = 1250
   \<and> new_actions (supervise (default_options ''svc.js'') 100000 stable_run)
       (supervise (default_options ''svc.js'') 100000 (stable_run @ [(240000, ChildExit 2 (Some 1))]))
     = [Log Warn (StoppedRunning ''svc.js''), SetTimeout RestartTimer 1250]
   \<and> wait (monitor 240000 (supervise (default_options ''svc.js'') 100000 stable_run)) = 1250000"
  by (simp add: eval_defs stable_run_def)

subsection \<open>C4: the delay grows by the factor once per restart\<close>




subsection \<open>C5: the total number of retries\<close>

text \<open>
  C5. Every firing of the restart timer increments \<open>attempts\<close>. If \<open>maxRetries\<close> is not
  negative and \<open>attempts\<close> then exceeds it, the supervisor logs the error and exits, forking
  nothing; otherwise (no kill requested) it forks the next child. In scenario A
  (\<open>maxRetries = 2\<close>, delay 1 second, no growth) three exits in a row give two restarts,
  each after a wait of 1000 ms, and the third firing of the timer ends the supervisor.
\<close>

theorem retry_budget:
  "attempts (restart_timer now s) = attempts s + 1
   \<and> (0 \<le> maxRetries s \<and> maxRetries s < int (attempts s) + 1 \<longrightarrow>
        exited (restart_timer now s)
        \<and> take 2 (new_actions s (restart_timer now s)) =
            [Log Error (TooManyRestartsTotal (script s)), ProcessExit]
        \<and> filter is_fork (new_actions s (restart_timer now s)) = []
        \<and> live (restart_timer now s) = live s)
   \<and> (\<not> (0 \<le> maxRetries s \<and> maxRetries s < int (attempts s) + 1) \<and> \<not> forcekill s \<longrightarrow>
        exited (restart_timer now s) = exited s
        \<and> filter is_fork (new_actions s (restart_timer now s)) =
            [Fork (ChildProcess (Some (Suc (forks s))))])
   \<and> out (supervise scenario_A_options 100000 scenario_A_events) =
       [Log Info (Starting ''svc.js''), SetTimeout WindowTimer 60001, Fork (ChildProcess (Some 1)),
        Log Warn (StoppedRunning ''svc.js''), SetTimeout RestartTimer 1000,
        Log Warn (RestartedAfter 1000 1), Fork (ChildProcess (Some 2)),
        Log Warn (StoppedRunning ''svc.js''), SetTimeout RestartTimer 1000,
        Log Warn (RestartedAfter 1000 2), Fork (ChildProcess (Some 3)),
        Log Warn (StoppedRunning ''svc.js''), SetTimeout RestartTimer 1000,
        Log Error (TooManyRestartsTotal ''svc.js''), ProcessExit,
        Log Warn AttemptedKillUnrecognized]
   \<and> exited (supervise scenario_A_options 100000 scenario_A_events)
   \<and> feasible 100000 (start 100000 (new_container scenario_A_options)) scenario_A_events"
proof -
  have a: "attempts (restart_timer now s) = attempts s + 1"
    by (simp add: container_defs Let_def split: option.splits)
  have b: "0 \<le> maxRetries s \<and> maxRetries s < int (attempts s) + 1 \<longrightarrow>
        exited (restart_timer now s)
        \<and> take 2 (new_actions s (restart_timer now s)) =
            [Log Error (TooManyRestartsTotal (script s)), ProcessExit]
        \<and> filter is_fork (new_actions s (restart_timer now s)) = []
        \<and> live (restart_timer now s) = live s"
    by (simp add: new_actions_def container_defs Let_def split: option.splits)
  have c: "\<not> (0 \<le> maxRetries s \<and> maxRetries s < int (attempts s) + 1) \<and> \<not> forcekill s \<longrightarrow>
        exited (restart_timer now s) = exited s
        \<and> filter is_fork (new_actions s (restart_timer now s)) =
            [Fork (ChildProcess (Some (Suc (forks s))))]"
    by (auto simp: new_actions_def container_defs Let_def split: option.splits)
  have d: "out (supervise scenario_A_options 100000 scenario_A_events) =
       [Log Info (Starting ''svc.js''), SetTimeout WindowTimer 60001, Fork (ChildProcess (Some 1)),
        Log Warn (StoppedRunning ''svc.js''), SetTimeout RestartTimer 1000,
        Log Warn (RestartedAfter 1000 1), Fork (ChildProcess (Some 2)),
        Log Warn (StoppedRunning ''svc.js''), SetTimeout RestartTimer 1000,
        Log Warn (RestartedAfter 1000 2), Fork (ChildProcess (Some 3)),
        Log Warn (StoppedRunning ''svc.js''), SetTimeout RestartTimer 1000,
        Log Error (TooManyRestartsTotal ''svc.js''), ProcessExit,
        Log Warn AttemptedKillUnrecognized]"
    by (simp add: eval_defs scenario_A_options_def scenario_A_events_def)
  have e: "exited (supervise scenario_A_options 100000 scenario_A_events)"
    by (simp add: eval_defs scenario_A_options_def scenario_A_events_def)
  have f: "feasible 100000 (start 100000 (new_container scenario_A_options)) scenario_A_events"
    by (simp add: eval_defs scenario_A_options_def scenario_A_events_def)
  from a b c d e f show ?thesis by blast
qed

text \<open>
  The theorem in scenario A: at the third firing of the timer the budget is exhausted,
  at the first it is not.
\<close>

theorem retry_budget_witness:
  "exited (restart_timer 103300 (supervise scenario_A_options 100000 (take 5 scenario_A_events)))
   \<and> attempts (restart_timer 103300 (supervise scenario_A_options 100000 (take 5 scenario_A_events))) = 3
   \<and> filter is_fork (new_actions (supervise scenario_A_options 100000 (take 1 scenario_A_events))
        (restart_timer 101100 (supervise scenario_A_options 100000 (take 1 scenario_A_events))))
      = [Fork (ChildProcess (Some 2))]"
  using retry_budget [of 103300 "supervise scenario_A_options 100000 (take 5 scenario_A_events)"]
    retry_budget [of 101100 "supervise scenario_A_options 100000 (take 1 scenario_A_events)"]
  by (simp add: eval_defs scenario_A_options_def scenario_A_events_def)

subsection \<open>C6: a second child after an uncaught exception\<close>

text \<open>
  C6 asks that no child be forked while one is alive. The code at the defaults, with an
  uncaught exception at 100500 while the first child runs: the handler that \<open>start\<close>
  registered calls \<open>launch\<close>, which logs the message and forks a second child; both are
  alive. (The restart path forks only when no child is: see
  \<open>one_live_child_without_exceptions\<close>.)
\<close>

theorem second_child_after_exception:
  "feasible 100000 (start 100000 (new_container (default_options ''svc.js'')))
     [(100500, UncaughtException ''boom'')]
   \<and> live (supervise (default_options ''svc.js'') 100000 []) = [1]
   \<and> live (supervise (default_options ''svc.js'') 100000 [(100500, UncaughtException ''boom'')]) = [1, 2]
   \<and> out (supervise (default_options ''svc.js'') 100000 [(100500, UncaughtException ''boom'')]) =
       [Log Info (Starting ''svc.js''), SetTimeout WindowTimer 60001, Fork (ChildProcess (Some 1)),
        Log Warn (ErrMessage ''boom''), Fork (ChildProcess (Some 2))]"
  by (simp add: eval_defs)

subsection \<open>C7: the termination request\<close>

text \<open>
  What \<open>killkid\<close> does is decided by the handle: with a handle and \<open>stopParentFirst\<close> it
  sends the child the message \<open>shutdown\<close> and nothing else; with a handle and without
  \<open>stopParentFirst\<close> it kills the child and sends nothing; without a handle it logs a
  warning and nothing else. In each case only \<open>forcekill\<close> and the output change. On a
  feasible run without uncaught exceptions and server errors the handle is held exactly
  while the child it names is alive.
\<close>

lemma killkid_by_handle:
  "(child s = Some c \<and> stopParentFirst s \<longrightarrow>
      killkid s = s\<lparr>forcekill := True, out := out s @ [Send c ''shutdown'']\<rparr>)
   \<and> (child s = Some c \<and> \<not> stopParentFirst s \<longrightarrow>
      killkid s = s\<lparr>forcekill := True, out := out s @ [Kill c]\<rparr>)
   \<and> (child s = None \<longrightarrow>
      killkid s = s\<lparr>forcekill := True, out := out s @ [Log Warn AttemptedKillUnrecognized]\<rparr>)
   \<and> (\<not> exited s \<longrightarrow> step s (t, Signal) = killkid s)
   \<and> (feasible t0 (start t0 (new_container opts)) es \<and> no_exceptions es
        \<and> \<not> exited (supervise opts t0 es) \<longrightarrow>
        (child (supervise opts t0 es) = None \<longrightarrow> live (supervise opts t0 es) = [])
        \<and> (\<forall>h. child (supervise opts t0 es) = Some h \<longrightarrow>
               (\<exists>p. h = ChildProcess (Some p) \<and> live (supervise opts t0 es) = [p])))"
proof -
  have a: "child s = Some c \<and> stopParentFirst s \<longrightarrow>
      killkid s = s\<lparr>forcekill := True, out := out s @ [Send c ''shutdown'']\<rparr>"
    by (simp add: container_defs)
  have b: "child s = Some c \<and> \<not> stopParentFirst s \<longrightarrow>
      killkid s = s\<lparr>forcekill := True, out := out s @ [Kill c]\<rparr>"
    by (simp add: container_defs)
  have c: "child s = None \<longrightarrow>
      killkid s = s\<lparr>forcekill := True, out := out s @ [Log Warn AttemptedKillUnrecognized]\<rparr>"
    by (simp add: container_defs)
  have d: "\<not> exited s \<longrightarrow> step s (t, Signal) = killkid s"
    by (simp add: step_def)
  have e: "feasible t0 (start t0 (new_container opts)) es \<and> no_exceptions es
        \<and> \<not> exited (supervise opts t0 es) \<longrightarrow>
        (child (supervise opts t0 es) = None \<longrightarrow> live (supervise opts t0 es) = [])
        \<and> (\<forall>h. child (supervise opts t0 es) = Some h \<longrightarrow>
               (\<exists>p. h = ChildProcess (Some p) \<and> live (supervise opts t0 es) = [p]))"
  proof (intro impI, elim conjE)
    assume fe: "feasible t0 (start t0 (new_container opts)) es" and nx: "no_exceptions es"
      and ne: "\<not> exited (supervise opts t0 es)"
    have oc: "one_child (supervise opts t0 es)"
      unfolding supervise_def by (rule run_one_child[OF start_one_child fe nx])
    show "(child (supervise opts t0 es) = None \<longrightarrow> live (supervise opts t0 es) = [])
        \<and> (\<forall>h. child (supervise opts t0 es) = Some h \<longrightarrow>
               (\<exists>p. h = ChildProcess (Some p) \<and> live (supervise opts t0 es) = [p]))"
    proof (cases "child (supervise opts t0 es)")
      case None
      with oc ne show ?thesis by (simp add: one_child_def)
    next
      case (Some h)
      obtain q where h: "h = ChildProcess q" by (cases h)
      with Some oc ne show ?thesis by (auto simp: one_child_def)
    qed
  qed
  from a b c d e show ?thesis by blast
qed

text \<open>
  C7 asks that a termination request reach the child whenever one is alive: the message
  with \<open>stopParentFirst\<close>, the kill without. The code at the run \<open>orphan_run\<close>: the
  uncaught exception forks a second child and the handle now names that one (the defect
  of C6); the exit of the second child clears the handle while the first child is alive.
  The termination request then finds no handle: it logs the warning only, with and
  without \<open>stopParentFirst\<close>. The first child is neither killed nor sent a message, and
  is still alive, the supervisor still running, after the pending restart timer has
  fired.
\<close>

theorem signal_misses_live_child:
  "feasible 100000 (start 100000 (new_container (default_options ''svc.js'')))
     (orphan_run @ [(101600, TimerFires RestartTimer 101600)])
   \<and> live (supervise (default_options ''svc.js'') 100000 (take 2 orphan_run)) = [1]
   \<and> child (supervise (default_options ''svc.js'') 100000 (take 2 orphan_run)) = None
   \<and> new_actions (supervise (default_options ''svc.js'') 100000 (take 2 orphan_run))
        (supervise (default_options ''svc.js'') 100000 orphan_run)
      = [Log Warn AttemptedKillUnrecognized]
   \<and> new_actions (supervise (stop_first_options ''svc.js'') 100000 (take 2 orphan_run))
        (supervise (stop_first_options ''svc.js'') 100000 orphan_run)
      = [Log Warn AttemptedKillUnrecognized]
   \<and> live (supervise (stop_first_options ''svc.js'') 100000 orphan_run) = [1]
   \<and> out (supervise (default_options ''svc.js'') 100000
        (orphan_run @ [(101600, TimerFires RestartTimer 101600)])) =
       [Log Info (Starting ''svc.js''), SetTimeout WindowTimer 60001, Fork (ChildProcess (Some 1)),
        Log Warn (ErrMessage ''boom''), Fork (ChildProcess (Some 2)),
        Log Warn (StoppedRunning ''svc.js''), SetTimeout RestartTimer 1000,
        Log Warn AttemptedKillUnrecognized, Log Info ProcessKilled]
   \<and> live (supervise (default_options ''svc.js'') 100000
        (orphan_run @ [(101600, TimerFires RestartTimer 101600)])) = [1]
   \<and> \<not> exited (supervise (default_options ''svc.js'') 100000
        (orphan_run @ [(101600, TimerFires RestartTimer 101600)]))"
  by (simp add: eval_defs stop_first_options_def orphan_run_def)

subsection \<open>C8: repeated termination requests\<close>

text \<open>
  C8, as the code has it. The flag is idempotent: the first request sets \<open>forcekill\<close>, and
  it stays set whatever follows. The handler is not: it has no guard, so a second
  request repeats the action of the first (another \<open>shutdown\<close> message, another kill, or
  another warning) and changes nothing else.
\<close>

theorem killkid_repeated:
  "forcekill (killkid s) \<and> forcekill (run (killkid s) es)
   \<and> killkid (killkid s) = emit (last (out (killkid s))) (killkid s)
   \<and> new_actions s (killkid (killkid s)) =
       (case child s of
          Some c \<Rightarrow> if stopParentFirst s then [Send c ''shutdown'', Send c ''shutdown'']
                    else [Kill c, Kill c]
        | None \<Rightarrow> [Log Warn AttemptedKillUnrecognized, Log Warn AttemptedKillUnrecognized])"
proof -
  have a: "forcekill (killkid s)"
    by (simp add: container_defs Let_def split: option.splits)
  from run_forcekill[OF a] have b: "forcekill (run (killkid s) es)" by simp
  have c: "killkid (killkid s) = emit (last (out (killkid s))) (killkid s)"
    by (simp add: container_defs Let_def split: option.splits)
  have d: "new_actions s (killkid (killkid s)) =
       (case child s of
          Some c \<Rightarrow> if stopParentFirst s then [Send c ''shutdown'', Send c ''shutdown'']
                    else [Kill c, Kill c]
        | None \<Rightarrow> [Log Warn AttemptedKillUnrecognized, Log Warn AttemptedKillUnrecognized])"
    by (simp add: new_actions_def container_defs Let_def split: option.splits)
  from a b c d show ?thesis by blast
qed

text \<open>
  C8 as stated asks that a repeated signal perform no second kill and no second
  message. Two signals while the first child runs: with \<open>stopParentFirst\<close> the child is
  sent \<open>shutdown\<close> twice, and without it the child is killed twice.
\<close>

theorem repeated_signal_counterexample:
  "out (supervise (stop_first_options ''svc.js'') 100000 [(100500, Signal), (100600, Signal)]) =
     [Log Info (Starting ''svc.js''), SetTimeout WindowTimer 60001, Fork (ChildProcess (Some 1)),
      Send (ChildProcess (Some 1)) ''shutdown'', Send (ChildProcess (Some 1)) ''shutdown'']
   \<and> out (supervise (default_options ''svc.js'') 100000 [(100500, Signal), (100600, Signal)]) =
     [Log Info (Starting ''svc.js''), SetTimeout WindowTimer 60001, Fork (ChildProcess (Some 1)),
      Kill (ChildProcess (Some 1)), Kill (ChildProcess (Some 1))]"
  by (simp add: eval_defs stop_first_options_def)

subsection \<open>C9: abortOnError and the exit code 0\<close>

text \<open>
  C9. The exit listener logs the error code and exits for \<open>abortOnError\<close> exactly when
  \<open>abortOnError\<close> is set and the code is not 0 (a code that is absent counts as not 0).
  With the code 0 no such entry is written at any level, and the supervisor exits only
  if a kill was requested or the limit of the window is reached, whatever \<open>abortOnError\<close> is.
\<close>

theorem abort_on_error_only_nonzero:
  "(Log Error (ExitedWithError (script s) code) \<in> set (new_actions s (child_exit now code s)))
     = (code \<noteq> Some 0 \<and> abortOnError s)
   \<and> Log lv (ExitedWithError sc c) \<notin> set (new_actions s (child_exit now (Some 0) s))
   \<and> exited (child_exit now (Some 0) s)
     = (exited s \<or> forcekill s
        \<or> (maxRestarts s \<le> int (starts s) \<and> now - 60000 \<le> startTime s))"
proof -
  have a: "(Log Error (ExitedWithError (script s) code) \<in> set (new_actions s (child_exit now code s)))
     = (code \<noteq> Some 0 \<and> abortOnError s)"
    by (auto simp: new_actions_def container_defs Let_def split: option.splits)
  have b: "Log lv (ExitedWithError sc c) \<notin> set (new_actions s (child_exit now (Some 0) s))"
    by (auto simp: new_actions_def container_defs Let_def split: option.splits)
  have c: "exited (child_exit now (Some 0) s)
     = (exited s \<or> forcekill s
        \<or> (maxRestarts s \<le> int (starts s) \<and> now - 60000 \<le> startTime s))"
    by (auto simp: container_defs Let_def MAX_seconds_def split: option.splits)
  from a b c show ?thesis by blast
qed

subsection \<open>C10: taskKill throws for every pid\<close>

text \<open>
  C10. \<open>taskKill\<close> throws for every argument: "PID is required for the kill operation."
  for a falsy pid such as 0, and "PID must be a number." for every other, since the
  guard tests the string that \<open>typeof\<close> returns, which is never empty. It never hands a
  command to \<open>exec\<close>.
\<close>

theorem taskKill_always_throws:
  "taskKill p force =
     Inl (JsError (if not_js p then ''PID is required for the kill operation.''
                   else ''PID must be a number.''))
   \<and> taskKill (Num 0) force = Inl (JsError ''PID is required for the kill operation.'')
   \<and> taskKill (Num 12345) force = Inl (JsError ''PID must be a number.'')
   \<and> truthy_string (typeof_boolean (isNaN p))
   \<and> taskKill p force \<noteq> Inr c"
  by (simp add: taskKill_def truthy_string_def typeof_boolean_def not_js_def)

end
